theory Spec2Isabelle
  imports Main "HOL-Library.Word"
begin

unbundle bit_operations_syntax

section \<open>JavaScript values\<close>

text \<open>
  The reconciler in \<^verbatim>\<open>packages/inferno/src/DOM/props.ts\<close> is dynamically typed. Its values
  are modelled by one datatype. Objects and functions carry an identity, because
  \<^verbatim>\<open>===\<close> compares them by reference; the second component lists the enumerable
  properties in \<^verbatim>\<open>for ... in\<close> order (the prototype chain is not modelled).
  \<open>LinkFn i h v\<close> is the closure that \<^verbatim>\<open>createLinkEvent(h, v)\<close> returns, \<open>i\<close> being its
  identity. Numbers are the integer-valued ones and \<open>NaN\<close>.
\<close>

datatype jsval =
    Undefined
  | Null
  | Bool bool
  | Num int
  | NaN
  | Str string
  | Fn nat "(string \<times> jsval) list"
  | LinkFn nat jsval jsval
  | Obj nat "(string \<times> jsval) list"

text \<open>
  Modelled from the spec: the helpers \<^verbatim>\<open>isFunction\<close>, \<^verbatim>\<open>isNull\<close>, \<^verbatim>\<open>isNullOrUndef\<close>,
  \<^verbatim>\<open>isNumber\<close> and \<^verbatim>\<open>isString\<close> are imported from \<^verbatim>\<open>inferno-shared\<close>, which is not part
  of the source at hand. The specification calls them callable, null, absent or null,
  numeric and string: they are \<^verbatim>\<open>typeof\<close> tests and comparisons with \<^verbatim>\<open>null\<close> and
  \<^verbatim>\<open>undefined\<close>.
\<close>

fun isFunction :: "jsval \<Rightarrow> bool" where
  "isFunction (Fn _ _) = True"
| "isFunction (LinkFn _ _ _) = True"
| "isFunction _ = False"

fun isNull :: "jsval \<Rightarrow> bool" where
  "isNull Null = True"
| "isNull _ = False"

fun isNullOrUndef :: "jsval \<Rightarrow> bool" where
  "isNullOrUndef Undefined = True"
| "isNullOrUndef Null = True"
| "isNullOrUndef _ = False"

fun isNumber :: "jsval \<Rightarrow> bool" where
  "isNumber (Num _) = True"
| "isNumber NaN = True"
| "isNumber _ = False"

fun isString :: "jsval \<Rightarrow> bool" where
  "isString (Str _) = True"
| "isString _ = False"

text \<open>Truthiness, as used by \<^verbatim>\<open>!\<close>, \<^verbatim>\<open>!!\<close>, \<^verbatim>\<open>&&\<close>, \<^verbatim>\<open>||\<close> and \<^verbatim>\<open>? :\<close>.\<close>

fun truthy :: "jsval \<Rightarrow> bool" where
  "truthy Undefined = False"
| "truthy Null = False"
| "truthy (Bool b) = b"
| "truthy (Num n) = (n \<noteq> 0)"
| "truthy NaN = False"
| "truthy (Str s) = (s \<noteq> [])"
| "truthy (Fn _ _) = True"
| "truthy (LinkFn _ _ _) = True"
| "truthy (Obj _ _) = True"

definition js_and :: "jsval \<Rightarrow> jsval \<Rightarrow> jsval" where
  "js_and a b = (if truthy a then b else a)"

definition js_or :: "jsval \<Rightarrow> jsval \<Rightarrow> jsval" where
  "js_or a b = (if truthy a then a else b)"

text \<open>Strict equality \<^verbatim>\<open>===\<close>: by value on primitives, by identity on objects and functions.\<close>

fun strict_eq :: "jsval \<Rightarrow> jsval \<Rightarrow> bool" where
  "strict_eq Undefined Undefined = True"
| "strict_eq Null Null = True"
| "strict_eq (Bool a) (Bool b) = (a = b)"
| "strict_eq (Num a) (Num b) = (a = b)"
| "strict_eq (Str a) (Str b) = (a = b)"
| "strict_eq (Fn i _) (Fn j _) = (i = j)"
| "strict_eq (LinkFn i _ _) (LinkFn j _ _) = (i = j)"
| "strict_eq (Obj i _) (Obj j _) = (i = j)"
| "strict_eq _ _ = False"

text \<open>
  Property read \<^verbatim>\<open>o[k]\<close> on a value that is neither \<^verbatim>\<open>null\<close> nor \<^verbatim>\<open>undefined\<close>:
  a missing property and any property of a primitive read as \<^verbatim>\<open>undefined\<close>.
\<close>

fun get_field :: "jsval \<Rightarrow> string \<Rightarrow> jsval" where
  "get_field (Obj _ ps) k = (case map_of ps k of Some v \<Rightarrow> v | None \<Rightarrow> Undefined)"
| "get_field (Fn _ ps) k = (case map_of ps k of Some v \<Rightarrow> v | None \<Rightarrow> Undefined)"
| "get_field _ k = Undefined"

text \<open>The keys a \<^verbatim>\<open>for (k in o)\<close> loop visits. The source never enumerates a string.\<close>

fun keys_of :: "jsval \<Rightarrow> string list" where
  "keys_of (Obj _ ps) = map fst ps"
| "keys_of (Fn _ ps) = map fst ps"
| "keys_of _ = []"

subsection \<open>Strings\<close>

text \<open>\<^verbatim>\<open>String.prototype.toLowerCase\<close> on ASCII names.\<close>

definition toLowerChar :: "char \<Rightarrow> char" where
  "toLowerChar c =
     (case map_of (zip ''ABCDEFGHIJKLMNOPQRSTUVWXYZ'' ''abcdefghijklmnopqrstuvwxyz'') c of
        Some l \<Rightarrow> l
      | None \<Rightarrow> c)"

definition toLowerCase :: "string \<Rightarrow> string" where
  "toLowerCase s = map toLowerChar s"

text \<open>Decimal rendering of a number, as \<^verbatim>\<open>value + 'px'\<close> converts it.\<close>

definition digit_char :: "nat \<Rightarrow> char" where
  "digit_char d = ''0123456789'' ! d"

fun digits :: "nat \<Rightarrow> string" where
  "digits n = (if n < 10 then [digit_char n] else digits (n div 10) @ [digit_char (n mod 10)])"

declare digits.simps [simp del]

definition intToString :: "int \<Rightarrow> string" where
  "intToString n = (if n < 0 then CHR ''-'' # digits (nat (- n)) else digits (nat n))"

text \<open>\<^verbatim>\<open>value + 'px'\<close>, evaluated by the source only when \<^verbatim>\<open>isNumber(value)\<close>.\<close>

fun plus_px :: "jsval \<Rightarrow> jsval" where
  "plus_px (Num n) = Str (intToString n @ ''px'')"
| "plus_px NaN = Str ''NaNpx''"
| "plus_px v = v"

section \<open>The host node and the collaborators\<close>

text \<open>
  Every mutation of the host node and every call to a collaborator outside
  \<^verbatim>\<open>props.ts\<close> is recorded, in program order.
\<close>

datatype effect =
    SetProperty string jsval
  | SetStyleProperty string jsval
  | RemoveAttribute string
  | SetAttribute string jsval
  | SetAttributeNS string string jsval
  | HandleEvent string jsval
  | Unmount jsval
  | UnmountAllChildren jsval
  | SetVNodeChildren nat jsval
  | SetVNodeChildFlags nat "32 word"

record vnode =
  childFlags :: "32 word"
  children :: jsval

text \<open>
  \<open>live\<close> holds the node's live properties \<^verbatim>\<open>dom[k]\<close>; the node is a plain object, a
  property reads back the value last assigned. \<open>vnodes\<close> is the store of virtual nodes,
  addressed by reference. \<open>fresh\<close> is the identity of the next closure created.
\<close>

record world =
  live :: "string \<Rightarrow> jsval"
  vnodes :: "nat \<Rightarrow> vnode"
  trace :: "effect list"
  fresh :: nat

text \<open>
  The classification tables of \<^verbatim>\<open>./constants\<close>, the flag constants of
  \<^verbatim>\<open>inferno-vnode-flags\<close>, the build mode and \<^verbatim>\<open>isSameInnerHTML\<close> are parameters.
\<close>

record env =
  booleanProps :: "string set"
  delegatedEvents :: "string set"
  isUnitlessNumber :: "string set"
  namespaces :: "string \<rightharpoonup> string"
  skipProps :: "string set"
  strictProps :: "string set"
  production :: bool
  isSameInnerHTML :: "(string \<Rightarrow> jsval) \<Rightarrow> jsval \<Rightarrow> bool"
  SelectElement :: "32 word"
  MultipleChildren :: "32 word"
  HasVNodeChildren :: "32 word"
  HasInvalidChildren :: "32 word"

datatype error = InvalidLinkEvent string

definition emit :: "effect \<Rightarrow> world \<Rightarrow> world" where
  "emit e node = node\<lparr>trace := trace node @ [e]\<rparr>"

definition setProperty :: "string \<Rightarrow> jsval \<Rightarrow> world \<Rightarrow> world" where
  "setProperty k v node = emit (SetProperty k v) (node\<lparr>live := (live node)(k := v)\<rparr>)"

section \<open>props.ts\<close>

definition isAttrAnEvent :: "string \<Rightarrow> bool" where
  "isAttrAnEvent attr =
     (case attr of c0 # c1 # _ \<Rightarrow> c0 = CHR ''o'' \<and> c1 = CHR ''n'' | _ \<Rightarrow> False)"

text \<open>
  \<^verbatim>\<open>createLinkEvent\<close> returns a closure; calling it with \<open>e\<close> calls
  \<^verbatim>\<open>linkEvent(nextValue.data, e)\<close>. \<open>invoke\<close> gives the calls a function value makes
  when it is called with one argument: a function from outside is one call of itself.
\<close>

definition createLinkEvent :: "nat \<Rightarrow> jsval \<Rightarrow> jsval \<Rightarrow> jsval" where
  "createLinkEvent i linkEvent nextValue = LinkFn i linkEvent nextValue"

datatype call = Call jsval "jsval list"

fun invoke :: "jsval \<Rightarrow> jsval \<Rightarrow> call list" where
  "invoke (LinkFn _ linkEvent nextValue) e = [Call linkEvent [get_field nextValue ''data'', e]]"
| "invoke f e = [Call f [e]]"

definition patchEvent :: "env \<Rightarrow> string \<Rightarrow> jsval \<Rightarrow> jsval \<Rightarrow> world \<Rightarrow> error + world" where
  "patchEvent E name lastValue nextValue node =
     (let nameLowerCase = toLowerCase name in
      if \<not> isFunction nextValue \<and> \<not> isNullOrUndef nextValue then
        (let linkEvent = get_field nextValue ''event'' in
         if truthy linkEvent \<and> isFunction linkEvent then
           Inr (setProperty nameLowerCase (createLinkEvent (fresh node) linkEvent nextValue)
                  (node\<lparr>fresh := Suc (fresh node)\<rparr>))
         else if \<not> production E then Inl (InvalidLinkEvent name)
         else Inr node)
      else
        (let domEvent = live node nameLowerCase in
         if \<not> truthy domEvent \<or> \<not> truthy (get_field domEvent ''wrapped'') then
           Inr (setProperty nameLowerCase nextValue node)
         else Inr node))"

text \<open>The three \<^verbatim>\<open>for ... in\<close> loops of \<^verbatim>\<open>patchStyle\<close>, each over the keys still to visit.\<close>

fun patchStyle_changed :: "env \<Rightarrow> jsval \<Rightarrow> jsval \<Rightarrow> string list \<Rightarrow> world \<Rightarrow> world" where
  "patchStyle_changed E lastAttrValue nextAttrValue [] node = node"
| "patchStyle_changed E lastAttrValue nextAttrValue (style # rest) node =
     (let v = get_field nextAttrValue style in
      patchStyle_changed E lastAttrValue nextAttrValue rest
        (if \<not> strict_eq v (get_field lastAttrValue style) then
           emit (SetStyleProperty style
                  (if \<not> isNumber v \<or> style \<in> isUnitlessNumber E then v else plus_px v)) node
         else node))"

fun patchStyle_removed :: "jsval \<Rightarrow> string list \<Rightarrow> world \<Rightarrow> world" where
  "patchStyle_removed nextAttrValue [] node = node"
| "patchStyle_removed nextAttrValue (style # rest) node =
     patchStyle_removed nextAttrValue rest
       (if isNullOrUndef (get_field nextAttrValue style) then
          emit (SetStyleProperty style (Str '''')) node
        else node)"

fun patchStyle_all :: "env \<Rightarrow> jsval \<Rightarrow> string list \<Rightarrow> world \<Rightarrow> world" where
  "patchStyle_all E nextAttrValue [] node = node"
| "patchStyle_all E nextAttrValue (style # rest) node =
     (let v = get_field nextAttrValue style in
      patchStyle_all E nextAttrValue rest
        (emit (SetStyleProperty style
                (if \<not> isNumber v \<or> style \<in> isUnitlessNumber E then v else plus_px v)) node))"

definition patchStyle :: "env \<Rightarrow> jsval \<Rightarrow> jsval \<Rightarrow> world \<Rightarrow> world" where
  "patchStyle E lastAttrValue nextAttrValue node =
     (if isString nextAttrValue then emit (SetStyleProperty ''cssText'' nextAttrValue) node
      else if \<not> isNullOrUndef lastAttrValue \<and> \<not> isString lastAttrValue then
        patchStyle_removed nextAttrValue (keys_of lastAttrValue)
          (patchStyle_changed E lastAttrValue nextAttrValue (keys_of nextAttrValue) node)
      else patchStyle_all E nextAttrValue (keys_of nextAttrValue) node)"

definition removeProp :: "env \<Rightarrow> string \<Rightarrow> jsval \<Rightarrow> world \<Rightarrow> 32 word \<Rightarrow> error + world" where
  "removeProp E prop lastValue node nextFlags =
     (if prop = ''value'' then
        Inr (setProperty ''value'' (if (nextFlags AND SelectElement E) \<noteq> 0 then Null else Str '''') node)
      else if prop = ''style'' then Inr (emit (RemoveAttribute ''style'') node)
      else if prop \<in> delegatedEvents E then Inr (emit (HandleEvent prop Null) node)
      else if isAttrAnEvent prop then patchEvent E prop lastValue Null node
      else if prop = ''dangerouslySetInnerHTML'' then Inr (setProperty ''textContent'' (Str '''') node)
      else Inr (emit (RemoveAttribute prop) node))"

text \<open>The release of the prior children in the raw-HTML branch of \<^verbatim>\<open>patchProp\<close>.\<close>

definition releaseChildren :: "env \<Rightarrow> nat \<Rightarrow> world \<Rightarrow> world" where
  "releaseChildren E a node =
     (let lastVNode = vnodes node a;
          node1 =
            (if (childFlags lastVNode AND MultipleChildren E) \<noteq> 0 then
               emit (UnmountAllChildren (children lastVNode)) node
             else if (childFlags lastVNode AND HasVNodeChildren E) \<noteq> 0 then
               emit (Unmount (children lastVNode)) node
             else node);
          node2 = emit (SetVNodeChildren a Null)
                   (node1\<lparr>vnodes := (vnodes node1)(a := (vnodes node1 a)\<lparr>children := Null\<rparr>)\<rparr>);
          node3 = emit (SetVNodeChildFlags a (HasInvalidChildren E))
                   (node2\<lparr>vnodes := (vnodes node2)(a := (vnodes node2 a)\<lparr>childFlags := HasInvalidChildren E\<rparr>)\<rparr>)
      in node3)"

definition patchProp ::
  "env \<Rightarrow> string \<Rightarrow> jsval \<Rightarrow> jsval \<Rightarrow> world \<Rightarrow> bool \<Rightarrow> bool \<Rightarrow> nat option \<Rightarrow> error + world" where
  "patchProp E prop lastValue nextValue node isSVG hasControlledValue lastVNode =
     (if \<not> strict_eq lastValue nextValue then
        (if prop \<in> delegatedEvents E then Inr (emit (HandleEvent prop nextValue) node)
         else if prop \<in> skipProps E \<or> (hasControlledValue \<and> prop = ''value'') then Inr node
         else if prop \<in> booleanProps E then
           Inr (setProperty (if prop = ''autoFocus'' then toLowerCase prop else prop)
                  (Bool (truthy nextValue)) node)
         else if prop \<in> strictProps E then
           (let v = (if isNullOrUndef nextValue then Str '''' else nextValue) in
            if \<not> strict_eq (live node prop) v then Inr (setProperty prop v node) else Inr node)
         else if isAttrAnEvent prop then patchEvent E prop lastValue nextValue node
         else if isNullOrUndef nextValue then Inr (emit (RemoveAttribute prop) node)
         else if prop = ''style'' then Inr (patchStyle E lastValue nextValue node)
         else if prop = ''dangerouslySetInnerHTML'' then
           (let lastHtml = js_or (js_and lastValue (get_field lastValue ''__html'')) (Str '''');
                nextHtml = js_or (js_and nextValue (get_field nextValue ''__html'')) (Str '''')
            in
            if \<not> strict_eq lastHtml nextHtml then
              (if \<not> isNullOrUndef nextHtml \<and> \<not> isSameInnerHTML E (live node) nextHtml then
                 Inr (setProperty ''innerHTML'' nextHtml
                        (case lastVNode of None \<Rightarrow> node | Some a \<Rightarrow> releaseChildren E a node))
               else Inr node)
            else Inr node)
         else
           (if isSVG \<and> prop \<in> Map.dom (namespaces E) then
              Inr (emit (SetAttributeNS (the (namespaces E prop)) prop nextValue) node)
            else Inr (emit (SetAttribute prop nextValue) node)))
      else Inr node)"

section \<open>Counting writes\<close>



section \<open>A concrete configuration\<close>

text \<open>
  An instance of the parameters, with a few entries in each table, the flag values of
  \<^verbatim>\<open>inferno-vnode-flags\<close>, a development build, and a host whose markup comparison is
  string equality with the live \<^verbatim>\<open>innerHTML\<close>.
\<close>

definition sample_env :: env where
  "sample_env =
     \<lparr> booleanProps = {''disabled'', ''autoFocus'', ''muted''},
       delegatedEvents = {''onClick'', ''onDblClick''},
       isUnitlessNumber = {''opacity'', ''zIndex''},
       namespaces = [''xlink:href'' \<mapsto> ''http://www.w3.org/1999/xlink''],
       skipProps = {''children'', ''key'', ''ref''},
       strictProps = {''volume'', ''defaultChecked''},
       production = False,
       isSameInnerHTML = (\<lambda>l html. strict_eq (l ''innerHTML'') html),
       SelectElement = 256,
       MultipleChildren = 12,
       HasVNodeChildren = 2,
       HasInvalidChildren = 1 \<rparr>"

text \<open>
  A node with some live properties set, nothing recorded yet, and one virtual node at
  address 0 that has a single child.
\<close>

definition sample_node :: world where
  "sample_node =
     \<lparr> live = (\<lambda>_. Undefined)
                (''disabled'' := Bool False, ''volume'' := Num 1, ''innerHTML'' := Str ''<p>a</p>''),
       vnodes = (\<lambda>_. \<lparr> childFlags = 1, children = Null \<rparr>)
                (0 := \<lparr> childFlags = 2, children = Obj 7 [] \<rparr>),
       trace = [],
       fresh = 0 \<rparr>"

section \<open>Auxiliary facts\<close>

lemma toLowerCase_autoFocus: "toLowerCase ''autoFocus'' = ''autofocus''"
  by (simp add: toLowerCase_def toLowerChar_def)

lemma strict_eq_refl: "v \<noteq> NaN \<Longrightarrow> strict_eq v v"
  by (cases v) simp_all

lemma isFunction_truthy: "isFunction h \<Longrightarrow> truthy h"
  by (cases h) simp_all




section \<open>Style\<close>

text \<open>
  C5. Structured-to-structured style reconciliation with previous
  \<^verbatim>\<open>{a:"1px", b:"2px"}\<close> and next \<^verbatim>\<open>{a:"1px", c:"3px"}\<close>: \<^verbatim>\<open>patchStyle\<close> writes
  \<^verbatim>\<open>"3px"\<close> to key \<^verbatim>\<open>c\<close>, then the empty string to key \<^verbatim>\<open>b\<close>, and nothing else; in
  particular key \<^verbatim>\<open>a\<close>, whose value is the same on both sides, is not written.
\<close>

theorem patchStyle_structured_example:
  "patchStyle E (Obj i [(''a'', Str ''1px''), (''b'', Str ''2px'')])
       (Obj j [(''a'', Str ''1px''), (''c'', Str ''3px'')]) node =
     node\<lparr>trace := trace node @
       [SetStyleProperty ''c'' (Str ''3px''), SetStyleProperty ''b'' (Str '''')]\<rparr>"
  by (simp add: patchStyle_def emit_def)

theorem patchStyle_structured_example_witness:
  "trace (patchStyle sample_env (Obj 1 [(''a'', Str ''1px''), (''b'', Str ''2px'')])
       (Obj 2 [(''a'', Str ''1px''), (''c'', Str ''3px'')]) sample_node) =
     [SetStyleProperty ''c'' (Str ''3px''), SetStyleProperty ''b'' (Str '''')]"
  using patchStyle_structured_example [of sample_env 1 2 sample_node]
  by (simp add: sample_node_def)



section \<open>Removal\<close>

text \<open>
  C7. For every node and previous value, \<^verbatim>\<open>removeProp\<close> called for the name
  \<^verbatim>\<open>"value"\<close> assigns the live property \<^verbatim>\<open>value\<close>: \<^verbatim>\<open>null\<close> when the flags have the
  select-element bit, the empty string otherwise; afterwards the live property holds that.
\<close>

theorem removeProp_value:
  "removeProp E ''value'' lastValue node nextFlags =
     Inr (setProperty ''value''
            (if (nextFlags AND SelectElement E) \<noteq> 0 then Null else Str '''') node) \<and>
   live (setProperty ''value''
            (if (nextFlags AND SelectElement E) \<noteq> 0 then Null else Str '''') node) ''value'' =
     (if (nextFlags AND SelectElement E) \<noteq> 0 then Null else Str '''')"
  by (simp add: removeProp_def setProperty_def emit_def)

theorem removeProp_value_witness:
  "removeProp sample_env ''value'' (Str ''x'') sample_node 256 =
     Inr (setProperty ''value'' Null sample_node) \<and>
   removeProp sample_env ''value'' (Str ''x'') sample_node 64 =
     Inr (setProperty ''value'' (Str '''') sample_node)"
  using removeProp_value [of sample_env "Str ''x''" sample_node 256]
    removeProp_value [of sample_env "Str ''x''" sample_node 64]
  by (simp add: sample_env_def)

section \<open>Events\<close>

text \<open>
  C8. For a linked-event value (an object) whose \<^verbatim>\<open>event\<close> is the function \<open>h\<close> and whose
  \<^verbatim>\<open>data\<close> is \<open>d\<close>, \<^verbatim>\<open>patchEvent\<close> succeeds and installs one function in the lower-cased
  event slot; called with an event \<open>e\<close>, that function makes exactly one call, \<open>h(d, e)\<close>.
\<close>

theorem patchEvent_linkEvent:
  assumes "isFunction h"
    and "get_field (Obj i ps) ''event'' = h"
    and "get_field (Obj i ps) ''data'' = d"
  shows "\<exists>node'. patchEvent E name lastValue (Obj i ps) node = Inr node' \<and>
           trace node' = trace node @ [SetProperty (toLowerCase name) (live node' (toLowerCase name))] \<and>
           invoke (live node' (toLowerCase name)) e = [Call h [d, e]]"
  using assms
  by (simp add: patchEvent_def isFunction_truthy setProperty_def emit_def createLinkEvent_def
      Let_def del: get_field.simps)

theorem patchEvent_linkEvent_witness:
  "isFunction (Fn 5 []) \<and>
   (\<exists>node'. patchEvent sample_env ''onInput'' Undefined
              (Obj 9 [(''event'', Fn 5 []), (''data'', Num 42)]) sample_node = Inr node' \<and>
            invoke (live node' ''oninput'') (Obj 11 []) = [Call (Fn 5 []) [Num 42, Obj 11 []]])"
  using patchEvent_linkEvent [where h = "Fn 5 []" and i = 9
      and ps = "[(''event'', Fn 5 []), (''data'', Num 42)]" and d = "Num 42" and E = sample_env
      and name = "''onInput''" and lastValue = Undefined and node = sample_node and e = "Obj 11 []"]
  by (auto simp add: toLowerCase_def toLowerChar_def)

text \<open>
  C10. Whenever the handler stored in the node's live event slot is truthy and carries a
  truthy \<^verbatim>\<open>wrapped\<close> marker, \<^verbatim>\<open>patchEvent\<close> leaves the node as it is, both when the next
  value is \<^verbatim>\<open>null\<close> or \<^verbatim>\<open>undefined\<close> and when it is a plain function: the function is not
  installed over the wrapped handler.
\<close>

theorem patchEvent_wrapped_kept:
  assumes "isFunction nextValue \<or> isNullOrUndef nextValue"
    and "truthy (live node (toLowerCase name))"
    and "truthy (get_field (live node (toLowerCase name)) ''wrapped'')"
  shows "patchEvent E name lastValue nextValue node = Inr node"
  using assms
  by (auto simp add: patchEvent_def Let_def)

theorem patchEvent_wrapped_kept_witness:
  "isFunction (Fn 4 []) \<and>
   truthy (get_field (Fn 3 [(''wrapped'', Bool True)]) ''wrapped'') \<and>
   patchEvent sample_env ''onInput'' Undefined (Fn 4 [])
     (sample_node\<lparr>live := (live sample_node)(''oninput'' := Fn 3 [(''wrapped'', Bool True)])\<rparr>) =
   Inr (sample_node\<lparr>live := (live sample_node)(''oninput'' := Fn 3 [(''wrapped'', Bool True)])\<rparr>)"
  using patchEvent_wrapped_kept [where nextValue = "Fn 4 []" and name = "''onInput''"
      and node = "sample_node\<lparr>live := (live sample_node)(''oninput'' := Fn 3 [(''wrapped'', Bool True)])\<rparr>"
      and E = sample_env and lastValue = Undefined]
  by (simp add: toLowerCase_def toLowerChar_def)

section \<open>The property reconciler\<close>

text \<open>
  C9. For every property name and every node state, \<^verbatim>\<open>patchProp\<close> called with a previous
  value strictly equal (\<^verbatim>\<open>===\<close>) to the next value returns the node unchanged: no property
  write, no attribute change, no call to the delegation subsystem, whatever branch the name
  would otherwise take.
\<close>

theorem patchProp_same_value_no_mutation:
  "strict_eq lastValue nextValue \<Longrightarrow>
   patchProp E p lastValue nextValue node isSVG hasControlledValue lastVNode = Inr node"
  by (simp add: patchProp_def)

theorem patchProp_same_value_no_mutation_witness:
  "strict_eq (Bool True) (Bool True) \<and> ''disabled'' \<in> booleanProps sample_env \<and>
   patchProp sample_env ''disabled'' (Bool True) (Bool True) sample_node False False None =
     Inr sample_node"
  using patchProp_same_value_no_mutation [of "Bool True" "Bool True" sample_env "''disabled''"
      sample_node False False None]
  by (simp add: sample_env_def)

text \<open>
  C2, as stated, fails when the previous value is strictly equal to the next one: the guard
  of \<^verbatim>\<open>patchProp\<close> returns before the boolean branch. With previous and next value
  \<^verbatim>\<open>true\<close> and a live \<^verbatim>\<open>disabled\<close> of \<^verbatim>\<open>false\<close>, the live property stays \<^verbatim>\<open>false\<close>.
\<close>

theorem patchProp_boolean_counterexample:
  "''disabled'' \<in> booleanProps sample_env \<and>
   (case patchProp sample_env ''disabled'' (Bool True) (Bool True) sample_node False False None of
      Inl _ \<Rightarrow> False
    | Inr node' \<Rightarrow> live node' ''disabled'' = Bool False \<and>
                   live node' ''disabled'' \<noteq> Bool (truthy (Bool True)))"
  by (simp add: patchProp_def sample_env_def sample_node_def)

text \<open>
  C2, amended. For every name \<open>p\<close> that the tables classify as boolean (in the boolean table,
  not a delegated event, not skipped, not the controlled value), every next value and every
  previous value that is not strictly equal to it, \<^verbatim>\<open>patchProp\<close> makes one property write,
  after which the live property \<open>p\<close> (\<^verbatim>\<open>autofocus\<close> for the name \<^verbatim>\<open>autoFocus\<close>) is the
  boolean coercion of the next value.
\<close>

theorem patchProp_boolean:
  assumes "p \<in> booleanProps E"
    and "p \<notin> delegatedEvents E"
    and "p \<notin> skipProps E"
    and "\<not> (hasControlledValue \<and> p = ''value'')"
    and "\<not> strict_eq lastValue nextValue"
  shows "\<exists>node'. patchProp E p lastValue nextValue node isSVG hasControlledValue lastVNode = Inr node' \<and>
           live node' (if p = ''autoFocus'' then ''autofocus'' else p) = Bool (truthy nextValue) \<and>
           trace node' = trace node @
             [SetProperty (if p = ''autoFocus'' then ''autofocus'' else p) (Bool (truthy nextValue))]"
  using assms
  by (auto simp add: patchProp_def setProperty_def emit_def toLowerCase_autoFocus)

theorem patchProp_boolean_witness:
  "''autoFocus'' \<in> booleanProps sample_env \<and> ''autoFocus'' \<notin> delegatedEvents sample_env \<and>
   ''autoFocus'' \<notin> skipProps sample_env \<and> \<not> strict_eq Undefined (Num 1) \<and>
   (\<exists>node'. patchProp sample_env ''autoFocus'' Undefined (Num 1) sample_node False False None = Inr node' \<and>
      live node' ''autofocus'' = Bool True \<and>
      trace node' = [SetProperty ''autofocus'' (Bool True)])"
  using patchProp_boolean [where p = "''autoFocus''" and E = sample_env and lastValue = Undefined
      and nextValue = "Num 1" and node = sample_node and isSVG = False and hasControlledValue = False
      and lastVNode = None]
  by (simp add: sample_env_def sample_node_def)




lemma truthy_not_nullish: "truthy v \<Longrightarrow> \<not> isNullOrUndef v"
  by (cases v) simp_all

lemma js_or_not_nullish: "\<not> isNullOrUndef b \<Longrightarrow> \<not> isNullOrUndef (js_or a b)"
  by (simp add: js_or_def truthy_not_nullish)

text \<open>
  C4. In the raw-HTML branch of \<^verbatim>\<open>patchProp\<close>, when the previous and the next html
  string differ and the node's current markup differs from the next string, and a prior
  virtual node is recorded: the prior children are released (all of them when the child
  flags say multiple children, the single one when they say one virtual-node child), the
  children are set to \<^verbatim>\<open>null\<close> and the child flags to invalid, and only then is the next
  html string assigned to \<^verbatim>\<open>innerHTML\<close>. The record of effects shows that order.
\<close>

theorem patchProp_html_release_first:
  assumes "p = ''dangerouslySetInnerHTML''"
    and "p \<notin> delegatedEvents E" and "p \<notin> skipProps E" and "p \<notin> booleanProps E"
    and "p \<notin> strictProps E"
    and "\<not> strict_eq lastValue nextValue"
    and "\<not> isNullOrUndef nextValue"
    and "lastHtml = js_or (js_and lastValue (get_field lastValue ''__html'')) (Str '''')"
    and "nextHtml = js_or (js_and nextValue (get_field nextValue ''__html'')) (Str '''')"
    and "\<not> strict_eq lastHtml nextHtml"
    and "\<not> isSameInnerHTML E (live node) nextHtml"
  shows "\<exists>node'. patchProp E p lastValue nextValue node isSVG hasControlledValue (Some a) = Inr node' \<and>
           trace node' = trace node @
             (if (childFlags (vnodes node a) AND MultipleChildren E) \<noteq> 0
                then [UnmountAllChildren (children (vnodes node a))]
              else if (childFlags (vnodes node a) AND HasVNodeChildren E) \<noteq> 0
                then [Unmount (children (vnodes node a))]
              else []) @
             [SetVNodeChildren a Null, SetVNodeChildFlags a (HasInvalidChildren E),
              SetProperty ''innerHTML'' nextHtml] \<and>
           vnodes node' a = \<lparr>childFlags = HasInvalidChildren E, children = Null\<rparr> \<and>
           live node' ''innerHTML'' = nextHtml"
proof -
  have nn: "\<not> isNullOrUndef nextHtml"
    unfolding assms(9) by (rule js_or_not_nullish) simp
  have ev: "\<not> isAttrAnEvent ''dangerouslySetInnerHTML''"
    by (simp add: isAttrAnEvent_def)
  show ?thesis
    using assms nn ev
    by (simp add: patchProp_def Let_def releaseChildren_def setProperty_def emit_def)
qed

theorem patchProp_html_release_first_witness:
  "\<not> strict_eq (Str ''<p>a</p>'') (Str ''<p>b</p>'') \<and>
   \<not> isSameInnerHTML sample_env (live sample_node) (Str ''<p>b</p>'') \<and>
   (\<exists>node'. patchProp sample_env ''dangerouslySetInnerHTML'' (Obj 1 [(''__html'', Str ''<p>a</p>'')])
        (Obj 2 [(''__html'', Str ''<p>b</p>'')]) sample_node False False (Some 0) = Inr node' \<and>
      trace node' =
        [Unmount (Obj 7 []), SetVNodeChildren 0 Null, SetVNodeChildFlags 0 1,
         SetProperty ''innerHTML'' (Str ''<p>b</p>'')] \<and>
      live node' ''innerHTML'' = Str ''<p>b</p>'')"
proof -
  let ?p = "''dangerouslySetInnerHTML''"
  have t: "?p \<notin> delegatedEvents sample_env" "?p \<notin> skipProps sample_env"
    "?p \<notin> booleanProps sample_env" "?p \<notin> strictProps sample_env"
    by (simp_all add: sample_env_def)
  have g: "\<not> strict_eq (Obj 1 [(''__html'', Str ''<p>a</p>'')]) (Obj 2 [(''__html'', Str ''<p>b</p>'')])"
    "\<not> isNullOrUndef (Obj 2 [(''__html'', Str ''<p>b</p>'')])"
    by simp_all
  have l: "Str ''<p>a</p>'' =
      js_or (js_and (Obj 1 [(''__html'', Str ''<p>a</p>'')])
               (get_field (Obj 1 [(''__html'', Str ''<p>a</p>'')]) ''__html'')) (Str '''')"
    by (simp add: js_or_def js_and_def)
  have n: "Str ''<p>b</p>'' =
      js_or (js_and (Obj 2 [(''__html'', Str ''<p>b</p>'')])
               (get_field (Obj 2 [(''__html'', Str ''<p>b</p>'')]) ''__html'')) (Str '''')"
    by (simp add: js_or_def js_and_def)
  have d: "\<not> strict_eq (Str ''<p>a</p>'') (Str ''<p>b</p>'')"
    by simp
  have s: "\<not> isSameInnerHTML sample_env (live sample_node) (Str ''<p>b</p>'')"
    by (simp add: sample_env_def sample_node_def)
  have v: "childFlags (vnodes sample_node 0) = 2" "children (vnodes sample_node 0) = Obj 7 []"
    "trace sample_node = []"
    by (simp_all add: sample_node_def)
  have c: "MultipleChildren sample_env = 12" "HasVNodeChildren sample_env = 2"
    "HasInvalidChildren sample_env = 1"
    by (simp_all add: sample_env_def)
  from patchProp_html_release_first [OF refl t g l n d s, of False False 0] d s
  show ?thesis
    by (auto simp add: v c)
qed


text \<open>
  C1, as stated, fails for the raw-HTML name: \<^verbatim>\<open>removeProp\<close> clears \<^verbatim>\<open>textContent\<close>,
  whereas \<^verbatim>\<open>patchProp\<close> with a next value of \<^verbatim>\<open>null\<close> removes the attribute of that name.
\<close>

theorem removeProp_patchProp_counterexample:
  "removeProp sample_env ''dangerouslySetInnerHTML'' (Obj 1 [(''__html'', Str ''<p>a</p>'')]) sample_node 1
   \<noteq> patchProp sample_env ''dangerouslySetInnerHTML'' (Obj 1 [(''__html'', Str ''<p>a</p>'')]) Null
        sample_node False False None"
  by (simp add: removeProp_def patchProp_def sample_env_def sample_node_def isAttrAnEvent_def
      emit_def setProperty_def)

text \<open>
  C1, amended. For every previous value other than \<^verbatim>\<open>null\<close> and every name \<open>p\<close> other than
  \<^verbatim>\<open>value\<close> and the raw-HTML name that is either a delegated event (and not \<^verbatim>\<open>style\<close>) or
  in none of the delegated, skip, boolean and strict tables, \<^verbatim>\<open>removeProp\<close> does exactly
  what \<^verbatim>\<open>patchProp\<close> with a next value of \<^verbatim>\<open>null\<close> does; for a delegated-event name both
  make the one call \<^verbatim>\<open>handleEvent(p, null, dom)\<close> and touch no attribute.
\<close>

theorem removeProp_patchProp_null:
  assumes "lastValue \<noteq> Null"
    and "p \<noteq> ''value''"
    and "p \<noteq> ''dangerouslySetInnerHTML''"
    and "(p \<in> delegatedEvents E \<and> p \<noteq> ''style'') \<or>
         (p \<notin> delegatedEvents E \<and> p \<notin> skipProps E \<and> p \<notin> booleanProps E \<and> p \<notin> strictProps E)"
  shows "removeProp E p lastValue node nextFlags =
           patchProp E p lastValue Null node isSVG hasControlledValue lastVNode \<and>
         (p \<in> delegatedEvents E \<longrightarrow>
            removeProp E p lastValue node nextFlags = Inr (emit (HandleEvent p Null) node))"
proof -
  have ne: "\<not> strict_eq lastValue Null"
    using assms(1) by (cases lastValue) simp_all
  from assms(4) show ?thesis
  proof
    assume "p \<in> delegatedEvents E \<and> p \<noteq> ''style''"
    with assms(2) ne show ?thesis
      by (simp add: removeProp_def patchProp_def)
  next
    assume a: "p \<notin> delegatedEvents E \<and> p \<notin> skipProps E \<and> p \<notin> booleanProps E \<and> p \<notin> strictProps E"
    have st: "\<not> isAttrAnEvent ''style''"
      by (simp add: isAttrAnEvent_def)
    from a assms(2,3) ne st show ?thesis
      by (auto simp add: removeProp_def patchProp_def)
  qed
qed

theorem removeProp_patchProp_null_witness:
  "Fn 4 [] \<noteq> Null \<and> ''onClick'' \<in> delegatedEvents sample_env \<and>
   removeProp sample_env ''onClick'' (Fn 4 []) sample_node 1 =
     patchProp sample_env ''onClick'' (Fn 4 []) Null sample_node False False None \<and>
   patchProp sample_env ''onClick'' (Fn 4 []) Null sample_node False False None =
     Inr (emit (HandleEvent ''onClick'' Null) sample_node)"
proof -
  have d: "''onClick'' \<in> delegatedEvents sample_env"
    by (simp add: sample_env_def)
  have h: "(''onClick'' \<in> delegatedEvents sample_env \<and> ''onClick'' \<noteq> ''style'') \<or>
         (''onClick'' \<notin> delegatedEvents sample_env \<and> ''onClick'' \<notin> skipProps sample_env \<and>
          ''onClick'' \<notin> booleanProps sample_env \<and> ''onClick'' \<notin> strictProps sample_env)"
    using d by simp
  have n: "Fn 4 [] \<noteq> Null" "''onClick'' \<noteq> ''value''" "''onClick'' \<noteq> ''dangerouslySetInnerHTML''"
    by simp_all
  have r: "removeProp sample_env ''onClick'' (Fn 4 []) sample_node 1 =
       patchProp sample_env ''onClick'' (Fn 4 []) Null sample_node False False None \<and>
     (''onClick'' \<in> delegatedEvents sample_env \<longrightarrow>
      removeProp sample_env ''onClick'' (Fn 4 []) sample_node 1 =
        Inr (emit (HandleEvent ''onClick'' Null) sample_node))"
    by (rule removeProp_patchProp_null [OF n h])
  from r d have "patchProp sample_env ''onClick'' (Fn 4 []) Null sample_node False False None =
     Inr (emit (HandleEvent ''onClick'' Null) sample_node)"
    by metis
  with r d n(1) show ?thesis
    by blast
qed


end
